theory Spec2Isabelle
  imports Complex_Main "HOL-Library.Sublist"
begin

section \<open>The export pipeline of the AI fashion studio\<close>

text \<open>
  The repository holds two variants of \<^verbatim>\<open>App.tsx\<close>. The first persists its export
  settings (\<^verbatim>\<open>loadInitialSettings\<close>), composes the canvas filter in
  \<^verbatim>\<open>getCanvasFilter\<close> and exports in \<^verbatim>\<open>handleFinalDownload\<close>, which knows seven
  resolution presets and a centre crop. The second exports in \<^verbatim>\<open>handleDownload\<close>,
  which knows the presets \<^verbatim>\<open>custom\<close>, \<^verbatim>\<open>hd\<close> and \<^verbatim>\<open>4k\<close> and never crops.
  Both are embedded below.

  JavaScript numbers are modelled as real numbers: every arithmetic step is exact, and
  \<^verbatim>\<open>Math.round\<close> is \<^const>\<open>round\<close> (\<open>\<lfloor>x + 1/2\<rfloor>\<close>, halves go up, as in JavaScript).
  The one comparison whose outcome hangs on the rounding of doubles, the tolerance test
  of the \<^verbatim>\<open>custom\<close> preset, is not computed from the reals but taken as a parameter.
  The values \<^verbatim>\<open>NaN\<close> and \<^verbatim>\<open>Infinity\<close> have no counterpart, so the embedding follows
  the code on decoded images of positive width and height, where no division by zero
  occurs before the canvas is sized.
\<close>

subsection \<open>Typed settings\<close>

datatype image_format = PNG | JPEG

text \<open>The presets \<^verbatim>\<open>'original' | 'hd' | '4k' | 'square' | 'portrait' | 'landscape' | 'custom'\<close>.\<close>

datatype resolution_preset = Original | HD | UHD_4K | Square | Portrait | Landscape | Custom

text \<open>
  Modelled from the spec: the declaration of \<^verbatim>\<open>ColorGradingSettings\<close> lives in
  \<^verbatim>\<open>components/ExportModal\<close>, which is not among the sources. The spec gives it as
  \<^verbatim>\<open>{ preset, saturation, contrast, brightness, warmth }\<close> with numeric percentages, the
  fields the defaults in \<^verbatim>\<open>App.tsx\<close> set.
\<close>

record ColorGradingSettings =
  grading_preset :: string
  saturation :: real
  contrast :: real
  brightness :: real
  warmth :: real

text \<open>
  Modelled from the spec: the declaration of \<^verbatim>\<open>ResolutionSettings\<close> lives in
  \<^verbatim>\<open>components/ExportModal\<close>, which is not among the sources. The spec gives it as
  \<^verbatim>\<open>{ preset, width: integer|null, height: integer|null, aspectRatioLocked: boolean }\<close>.
\<close>

record ResolutionSettings =
  preset :: resolution_preset
  width :: "int option"
  height :: "int option"
  aspectRatioLocked :: bool

record ExportSettings =
  format :: image_format
  quality :: real
  colorGrading :: ColorGradingSettings
  resolution :: ResolutionSettings

text \<open>The constant \<^verbatim>\<open>initialExportSettings\<close> of the second variant.\<close>

definition initialExportSettings :: ExportSettings where
  "initialExportSettings =
     \<lparr>format = JPEG, quality = 95,
      colorGrading = \<lparr>grading_preset = ''none'', saturation = 100, contrast = 100,
                      brightness = 100, warmth = 0\<rparr>,
      resolution = \<lparr>preset = Original, width = None, height = None,
                    aspectRatioLocked = True\<rparr>\<rparr>"

subsection \<open>JavaScript truthiness of an optional dimension\<close>

text \<open>\<^verbatim>\<open>if (width)\<close>: \<^verbatim>\<open>null\<close> and \<^verbatim>\<open>0\<close> are falsy.\<close>

definition truthy :: "int option \<Rightarrow> bool" where
  "truthy d = (case d of None \<Rightarrow> False | Some n \<Rightarrow> n \<noteq> 0)"

text \<open>\<^verbatim>\<open>d || fallback\<close>.\<close>

definition or_else :: "int option \<Rightarrow> real \<Rightarrow> real" where
  "or_else d fallback = (case d of None \<Rightarrow> fallback
                         | Some n \<Rightarrow> if n = 0 then fallback else real_of_int n)"

subsection \<open>Target resolution in \<^verbatim>\<open>handleFinalDownload\<close>\<close>

record target =
  targetWidth :: real
  targetHeight :: real
  requiresCropping :: bool

text \<open>
  The \<^verbatim>\<open>switch (exportSettings.resolution.preset)\<close> with the four variables it
  is entered with: the target starts as the original size with no cropping.

  The \<^verbatim>\<open>custom\<close> branch decides on cropping with
  \<^verbatim>\<open>Math.abs((targetWidth / targetHeight) - originalAspectRatio) > 0.01\<close>, a comparison
  of IEEE doubles. Near the boundary its outcome is a matter of rounding: for a
  1200 x 800 source and a custom 1208 x 800 the exact difference is 0.01, the doubles
  give 0.010000000000000009, and the code crops. The outcome is therefore not computed
  from exact reals here: it is the parameter \<open>over_tolerance\<close>, the host's evaluation of
  the comparison at the target width, the target height and the source aspect ratio.
\<close>

definition resolve_final ::
    "(real \<Rightarrow> real \<Rightarrow> real \<Rightarrow> bool) \<Rightarrow> ResolutionSettings \<Rightarrow> nat \<Rightarrow> nat \<Rightarrow> target" where
  "resolve_final over_tolerance r originalWidth originalHeight =
     (let originalAspectRatio = real originalWidth / real originalHeight;
          t = \<lparr>targetWidth = real originalWidth, targetHeight = real originalHeight,
               requiresCropping = False\<rparr>
      in case preset r of
           HD \<Rightarrow>
             if originalAspectRatio \<ge> 1
             then t\<lparr>targetWidth := 1920, targetHeight := 1920 / originalAspectRatio\<rparr>
             else t\<lparr>targetHeight := 1920, targetWidth := 1920 * originalAspectRatio\<rparr>
         | UHD_4K \<Rightarrow>
             if originalAspectRatio \<ge> 1
             then t\<lparr>targetWidth := 3840, targetHeight := 3840 / originalAspectRatio\<rparr>
             else t\<lparr>targetHeight := 3840, targetWidth := 3840 * originalAspectRatio\<rparr>
         | Square \<Rightarrow> t\<lparr>targetWidth := 1080, targetHeight := 1080, requiresCropping := True\<rparr>
         | Portrait \<Rightarrow> t\<lparr>targetWidth := 1080, targetHeight := 1920, requiresCropping := True\<rparr>
         | Landscape \<Rightarrow> t\<lparr>targetWidth := 1920, targetHeight := 1080, requiresCropping := True\<rparr>
         | Custom \<Rightarrow>
             (let t' = t\<lparr>targetWidth := or_else (width r) (real originalWidth),
                          targetHeight := or_else (height r) (real originalHeight)\<rparr>
              in if over_tolerance (targetWidth t') (targetHeight t') originalAspectRatio
                 then t'\<lparr>requiresCropping := True\<rparr> else t')
         | Original \<Rightarrow> t)"

text \<open>
  The same comparison over exact reals. It agrees with the comparison of doubles
  wherever the exact difference is not within rounding error of 0.01. The examples
  below pass it where a comparison is needed and evaluate it only at differences far
  from 0.01.
\<close>

definition exact_over_tolerance :: "real \<Rightarrow> real \<Rightarrow> real \<Rightarrow> bool" where
  "exact_over_tolerance tw th ar = (\<bar>tw / th - ar\<bar> > 0.01)"

subsection \<open>Target resolution in \<^verbatim>\<open>handleDownload\<close>\<close>

text \<open>
  The \<^verbatim>\<open>if / else if\<close> chain on the preset. A preset other than \<^verbatim>\<open>custom\<close>,
  \<^verbatim>\<open>hd\<close> and \<^verbatim>\<open>4k\<close> has no branch and leaves the image's own size. The result is
  the pair \<^verbatim>\<open>(targetWidth, targetHeight)\<close>; this variant has no cropping flag.
  Under \<^verbatim>\<open>if (width)\<close> the assignment \<^verbatim>\<open>targetWidth = width\<close> stores the number
  \<open>or_else (width r) targetWidth\<close>, and likewise for the height.
\<close>

definition resolve_download :: "ResolutionSettings \<Rightarrow> nat \<Rightarrow> nat \<Rightarrow> real \<times> real" where
  "resolve_download r img_width img_height =
     (let targetWidth = real img_width;
          targetHeight = real img_height;
          sourceAspectRatio = real img_width / real img_height
      in if preset r = Custom then
           if truthy (width r) then
             (or_else (width r) targetWidth,
              if aspectRatioLocked r then or_else (width r) targetWidth / sourceAspectRatio
              else or_else (height r) targetHeight)
           else if truthy (height r) then
             (if aspectRatioLocked r then or_else (height r) targetHeight * sourceAspectRatio
              else or_else (width r) targetWidth,
              or_else (height r) targetHeight)
           else (targetWidth, targetHeight)
         else if preset r = HD then
           (if sourceAspectRatio \<ge> 1 then 1920 else 1920 * sourceAspectRatio,
            if sourceAspectRatio \<ge> 1 then 1920 / sourceAspectRatio else 1920)
         else if preset r = UHD_4K then
           (if sourceAspectRatio \<ge> 1 then 3840 else 3840 * sourceAspectRatio,
            if sourceAspectRatio \<ge> 1 then 3840 / sourceAspectRatio else 3840)
         else (targetWidth, targetHeight))"

subsection \<open>The centre crop of \<^verbatim>\<open>handleFinalDownload\<close>\<close>

record crop_rect =
  sx :: real
  sy :: real
  sWidth :: real
  sHeight :: real

text \<open>
  The block under \<^verbatim>\<open>if (requiresCropping)\<close>: the rectangle starts as the whole
  source and one of its axes is narrowed. The canvas aspect ratio is taken from the
  rounded canvas size.
\<close>

definition crop_source :: "nat \<Rightarrow> nat \<Rightarrow> int \<Rightarrow> int \<Rightarrow> crop_rect" where
  "crop_source originalWidth originalHeight canvas_w canvas_h =
     (let originalAspectRatio = real originalWidth / real originalHeight;
          canvasAspectRatio = real_of_int canvas_w / real_of_int canvas_h;
          c = \<lparr>sx = 0, sy = 0, sWidth = real originalWidth, sHeight = real originalHeight\<rparr>
      in if originalAspectRatio > canvasAspectRatio then
           (let c' = c\<lparr>sWidth := real originalHeight * canvasAspectRatio\<rparr>
            in c'\<lparr>sx := (real originalWidth - sWidth c') / 2\<rparr>)
         else if originalAspectRatio < canvasAspectRatio then
           (let c' = c\<lparr>sHeight := real originalWidth / canvasAspectRatio\<rparr>
            in c'\<lparr>sy := (real originalHeight - sHeight c') / 2\<rparr>)
         else c)"

subsection \<open>The canvas filter\<close>

text \<open>
  \<^verbatim>\<open>String.prototype.trim\<close> on a byte string: the ASCII white space and line
  terminators (tab, line feed, vertical tab, form feed, carriage return, space).
\<close>

definition is_space :: "char \<Rightarrow> bool" where
  "is_space c = (c \<in> {CHR 0x09, CHR 0x0A, CHR 0x0B, CHR 0x0C, CHR 0x0D, CHR '' ''})"

definition trim :: "string \<Rightarrow> string" where
  "trim s = rev (dropWhile is_space (rev (dropWhile is_space s)))"

text \<open>
  \<^verbatim>\<open>getCanvasFilter\<close>. The template literals turn each number into text with the
  host's number-to-string conversion, the parameter \<open>num\<close>.
\<close>

definition getCanvasFilter :: "(real \<Rightarrow> string) \<Rightarrow> ColorGradingSettings \<Rightarrow> string" where
  "getCanvasFilter num settings =
     (let filterString = '''';
          filterString = filterString @ ''saturate('' @ num (saturation settings) @ ''%) '';
          filterString = filterString @ ''contrast('' @ num (contrast settings) @ ''%) '';
          filterString = filterString @ ''brightness('' @ num (brightness settings) @ ''%) '';
          filterString = filterString @ ''sepia('' @ num (warmth settings) @ ''%)''
      in trim filterString)"

text \<open>The single template literal assigned to \<^verbatim>\<open>ctx.filter\<close> in \<^verbatim>\<open>handleDownload\<close>.\<close>

definition download_filter :: "(real \<Rightarrow> string) \<Rightarrow> ColorGradingSettings \<Rightarrow> string" where
  "download_filter num g =
     ''saturate('' @ num (saturation g) @ ''%) contrast('' @ num (contrast g)
       @ ''%) brightness('' @ num (brightness g) @ ''%) sepia('' @ num (warmth g) @ ''%)''"

subsection \<open>The two export handlers\<close>

text \<open>
  What the handler is given: the enhanced image may be absent; if present it either
  fails to load or loads with its width and height; the 2D context may be unavailable.
\<close>

datatype image_load = LoadFails | Loads nat nat

datatype export_stop = NoEnhancedImage | ImageLoadFailed | NoContext

text \<open>The \<^verbatim>\<open>drawImage\<close> call: nine arguments with a source rectangle, or five.\<close>

datatype draw_call = DrawCropped crop_rect int int | DrawScaled int int

text \<open>
  What an export does: the canvas size, the filter, the draw call, the two arguments of
  \<^verbatim>\<open>toDataURL\<close> (the quality argument may be absent) and the name of the download.
\<close>

record download =
  canvas_width :: int
  canvas_height :: int
  canvas_filter :: string
  drawn :: draw_call
  mime_type :: string
  encoder_quality :: "real option"
  filename :: string

text \<open>
  \<^verbatim>\<open>handleFinalDownload\<close>. Saving the settings to local storage comes first in the
  source and does not touch the export; it is left out. \<open>canvas_width\<close> and
  \<open>canvas_height\<close> are the integers assigned to the canvas, which reports them back
  unchanged (as a canvas does for sizes from 0 to \<open>2\<^sup>3\<^sup>1 - 1\<close>). \<open>over_tolerance\<close> is
  the comparison of doubles that \<open>resolve_final\<close> takes.
\<close>

definition handleFinalDownload ::
    "(real \<Rightarrow> real \<Rightarrow> real \<Rightarrow> bool) \<Rightarrow> (real \<Rightarrow> string) \<Rightarrow> ExportSettings \<Rightarrow>
     image_load option \<Rightarrow> bool \<Rightarrow> export_stop + download" where
  "handleFinalDownload over_tolerance num exportSettings enhancedImage ctx =
     (case enhancedImage of
        None \<Rightarrow> Inl NoEnhancedImage
      | Some LoadFails \<Rightarrow> Inl ImageLoadFailed
      | Some (Loads originalWidth originalHeight) \<Rightarrow>
          if \<not> ctx then Inl NoContext
          else
            (let t = resolve_final over_tolerance (resolution exportSettings)
                       originalWidth originalHeight;
                 cw = round (targetWidth t);
                 ch = round (targetHeight t);
                 flt = getCanvasFilter num (colorGrading exportSettings);
                 d = (if requiresCropping t
                      then DrawCropped (crop_source originalWidth originalHeight cw ch) cw ch
                      else DrawScaled cw ch)
             in if format exportSettings = PNG then
                  Inr \<lparr>canvas_width = cw, canvas_height = ch, canvas_filter = flt, drawn = d,
                       mime_type = ''image/png'', encoder_quality = None,
                       filename = ''ai-fashion-photoshoot-enhanced.png''\<rparr>
                else
                  Inr \<lparr>canvas_width = cw, canvas_height = ch, canvas_filter = flt, drawn = d,
                       mime_type = ''image/jpeg'',
                       encoder_quality = Some (quality exportSettings / 100),
                       filename = ''ai-fashion-photoshoot-enhanced.jpeg''\<rparr>))"

text \<open>The string a format takes in a template literal.\<close>

definition format_name :: "image_format \<Rightarrow> string" where
  "format_name f = (case f of PNG \<Rightarrow> ''png'' | JPEG \<Rightarrow> ''jpeg'')"

text \<open>
  \<^verbatim>\<open>handleDownload\<close>. It returns silently without an image or a context and has
  no \<^verbatim>\<open>onerror\<close> handler: an image that fails to load never reaches the canvas.
\<close>

definition handleDownload ::
    "(real \<Rightarrow> string) \<Rightarrow> ExportSettings \<Rightarrow> image_load option \<Rightarrow> bool \<Rightarrow> export_stop + download" where
  "handleDownload num exportSettings enhancedImageUrl ctx =
     (case enhancedImageUrl of
        None \<Rightarrow> Inl NoEnhancedImage
      | Some LoadFails \<Rightarrow> Inl ImageLoadFailed
      | Some (Loads img_width img_height) \<Rightarrow>
          if \<not> ctx then Inl NoContext
          else
            (let (targetWidth, targetHeight) =
                   resolve_download (resolution exportSettings) img_width img_height;
                 cw = round targetWidth;
                 ch = round targetHeight
             in Inr \<lparr>canvas_width = cw, canvas_height = ch,
                     canvas_filter = download_filter num (colorGrading exportSettings),
                     drawn = DrawScaled cw ch,
                     mime_type = ''image/'' @ format_name (format exportSettings),
                     encoder_quality = (if format exportSettings = JPEG
                                        then Some (quality exportSettings / 100) else None),
                     filename = ''ai-fashion-studio.'' @ format_name (format exportSettings)\<rparr>))"

subsection \<open>Persisted settings\<close>

text \<open>
  The value \<^verbatim>\<open>JSON.parse\<close> returns. An object is the list of its own properties,
  read by the first entry of a key.
\<close>

datatype json = JNull | JBool bool | JNum real | JStr string | JArr "json list"
  | JObj "(string \<times> json) list"

text \<open>
  An own property with a name that is not an array index, as the spread \<^verbatim>\<open>...x\<close> and
  the access \<^verbatim>\<open>x.name\<close> see it: only an object has one. (A string or an array
  spreads to index-named properties, which none of the settings' names is.)
\<close>

fun own_field :: "json \<Rightarrow> string \<Rightarrow> json option" where
  "own_field (JObj kvs) k = map_of kvs k"
| "own_field _ k = None"

fun js_truthy :: "json \<Rightarrow> bool" where
  "js_truthy JNull = False"
| "js_truthy (JBool b) = b"
| "js_truthy (JNum x) = (x \<noteq> 0)"
| "js_truthy (JStr s) = (s \<noteq> [])"
| "js_truthy (JArr xs) = True"
| "js_truthy (JObj kvs) = True"

text \<open>
  The settings object as it exists at run time: the type annotation is not enforced on
  what comes out of storage, so every field holds a JSON value.
\<close>

record RawColorGrading =
  raw_grading_preset :: json
  raw_saturation :: json
  raw_contrast :: json
  raw_brightness :: json
  raw_warmth :: json

record RawResolution =
  raw_preset :: json
  raw_width :: json
  raw_height :: json
  raw_aspectRatioLocked :: json

record RawSettings =
  raw_format :: json
  raw_quality :: json
  raw_colorGrading :: RawColorGrading
  raw_resolution :: RawResolution

definition defaultSettings :: RawSettings where
  "defaultSettings =
     \<lparr>raw_format = JStr ''jpeg'', raw_quality = JNum 92,
      raw_colorGrading = \<lparr>raw_grading_preset = JStr ''none'', raw_saturation = JNum 100,
                          raw_contrast = JNum 100, raw_brightness = JNum 100,
                          raw_warmth = JNum 0\<rparr>,
      raw_resolution = \<lparr>raw_preset = JStr ''original'', raw_width = JNull, raw_height = JNull,
                        raw_aspectRatioLocked = JBool True\<rparr>\<rparr>"

text \<open>One key of \<^verbatim>\<open>{ ...defaults, ...x }\<close>: the value of \<open>x\<close> if it has the key.\<close>

definition spread_over :: "json \<Rightarrow> string \<Rightarrow> json \<Rightarrow> json" where
  "spread_over x k dflt = (case own_field x k of Some v \<Rightarrow> v | None \<Rightarrow> dflt)"

text \<open>\<^verbatim>\<open>parsed.name || {}\<close>.\<close>

definition nested_or_empty :: "json \<Rightarrow> string \<Rightarrow> json" where
  "nested_or_empty parsed k =
     (case own_field parsed k of
        None \<Rightarrow> JObj []
      | Some v \<Rightarrow> if js_truthy v then v else JObj [])"

text \<open>
  The object literal \<^verbatim>\<open>mergedSettings\<close>. Reading \<^verbatim>\<open>parsed.colorGrading\<close> of
  \<^verbatim>\<open>null\<close> throws a \<^verbatim>\<open>TypeError\<close>: the result \<open>None\<close>.
\<close>

definition mergedSettings :: "json \<Rightarrow> RawSettings option" where
  "mergedSettings parsed =
     (case parsed of
        JNull \<Rightarrow> None
      | _ \<Rightarrow>
        (let g = nested_or_empty parsed ''colorGrading'';
             r = nested_or_empty parsed ''resolution'';
             dg = raw_colorGrading defaultSettings;
             dr = raw_resolution defaultSettings
         in Some
           \<lparr>raw_format = spread_over parsed ''format'' (raw_format defaultSettings),
            raw_quality = spread_over parsed ''quality'' (raw_quality defaultSettings),
            raw_colorGrading =
              \<lparr>raw_grading_preset = spread_over g ''preset'' (raw_grading_preset dg),
               raw_saturation = spread_over g ''saturation'' (raw_saturation dg),
               raw_contrast = spread_over g ''contrast'' (raw_contrast dg),
               raw_brightness = spread_over g ''brightness'' (raw_brightness dg),
               raw_warmth = spread_over g ''warmth'' (raw_warmth dg)\<rparr>,
            raw_resolution =
              \<lparr>raw_preset = spread_over r ''preset'' (raw_preset dr),
               raw_width = spread_over r ''width'' (raw_width dr),
               raw_height = spread_over r ''height'' (raw_height dr),
               raw_aspectRatioLocked =
                 spread_over r ''aspectRatioLocked'' (raw_aspectRatioLocked dr)\<rparr>\<rparr>))"

text \<open>The condition under the comment \<^verbatim>\<open>// Basic validation\<close>.\<close>

definition basic_validation :: "RawSettings \<Rightarrow> bool" where
  "basic_validation m =
     ((raw_format m = JStr ''png'' \<or> raw_format m = JStr ''jpeg'') \<and>
      (case raw_quality m of JNum q \<Rightarrow> q \<ge> 10 \<and> q \<le> 100 | _ \<Rightarrow> False))"

text \<open>What \<^verbatim>\<open>localStorage.getItem\<close> does: it throws, or returns a string or \<^verbatim>\<open>null\<close>.\<close>

datatype storage_read = GetItemThrows | GetItem "string option"

text \<open>
  \<^verbatim>\<open>loadInitialSettings\<close>. \<open>JSON_parse\<close> is the host's parser, \<open>None\<close> where it
  throws. Everything thrown inside the \<^verbatim>\<open>try\<close> ends in the defaults.
\<close>

definition loadInitialSettings :: "(string \<Rightarrow> json option) \<Rightarrow> storage_read \<Rightarrow> RawSettings" where
  "loadInitialSettings JSON_parse got =
     (case got of
        GetItemThrows \<Rightarrow> defaultSettings
      | GetItem None \<Rightarrow> defaultSettings
      | GetItem (Some savedSettings) \<Rightarrow>
          if savedSettings = [] then defaultSettings
          else
            (case JSON_parse savedSettings of
               None \<Rightarrow> defaultSettings
             | Some parsed \<Rightarrow>
                 (case mergedSettings parsed of
                    None \<Rightarrow> defaultSettings
                  | Some merged \<Rightarrow>
                      if basic_validation merged then merged else defaultSettings)))"

section \<open>Properties\<close>

subsection \<open>The filter string\<close>

lemma trim_keeps:
  assumes "s \<noteq> []" "\<not> is_space (hd s)" "\<not> is_space (last s)"
  shows "trim s = s"
proof -
  from assms(1,2) have front: "dropWhile is_space s = s"
    by (cases s) simp_all
  from assms(1,3) have "dropWhile is_space (rev s) = rev s"
    by (cases "rev s") (simp_all add: last_rev hd_rev)
  with front show ?thesis by (simp add: trim_def)
qed

lemma getCanvasFilter_eq: "getCanvasFilter num g = download_filter num g"
proof -
  let ?s = "download_filter num g"
  have "?s \<noteq> []" by (simp add: download_filter_def)
  moreover have "\<not> is_space (hd ?s)" by (simp add: download_filter_def is_space_def)
  moreover have "\<not> is_space (last ?s)" by (simp add: download_filter_def is_space_def)
  ultimately have "trim ?s = ?s" by (rule trim_keeps)
  then show ?thesis by (simp add: getCanvasFilter_def download_filter_def)
qed

text \<open>
  C7. For every colour grading record the filter string is exactly
  \<^verbatim>\<open>saturate(S%) contrast(C%) brightness(B%) sepia(W%)\<close>, the four fields in the order
  saturation, contrast, brightness, warmth: both for \<^verbatim>\<open>getCanvasFilter\<close> (whose final
  \<^verbatim>\<open>trim\<close> removes nothing) and for the template literal of \<^verbatim>\<open>handleDownload\<close>.
\<close>

theorem canvas_filter_fixed_order:
  "getCanvasFilter num g =
     ''saturate('' @ num (saturation g) @ ''%) contrast('' @ num (contrast g)
       @ ''%) brightness('' @ num (brightness g) @ ''%) sepia('' @ num (warmth g) @ ''%)''
   \<and> download_filter num g =
     ''saturate('' @ num (saturation g) @ ''%) contrast('' @ num (contrast g)
       @ ''%) brightness('' @ num (brightness g) @ ''%) sepia('' @ num (warmth g) @ ''%)''"
  by (simp add: getCanvasFilter_eq) (simp add: download_filter_def)

subsection \<open>The presets \<^verbatim>\<open>hd\<close> and \<^verbatim>\<open>4k\<close>\<close>

lemma short_edge_le:
  fixes a L :: real
  assumes "0 < a" "0 < L"
  shows "1 \<le> a \<Longrightarrow> L / a \<le> L" and "\<not> 1 \<le> a \<Longrightarrow> L * a \<le> L"
proof -
  assume "1 \<le> a"
  with assms have "L \<le> L * a" by simp
  with assms show "L / a \<le> L" by (simp add: pos_divide_le_eq)
next
  assume "\<not> 1 \<le> a"
  with assms show "L * a \<le> L" by simp
qed

lemma round_max: "max (round (x::real)) (round y) = round (max x y)"
proof (cases "x \<le> y")
  case True
  then show ?thesis by (simp add: max_def round_mono)
next
  case False
  then have "round y \<le> round x" by (simp add: round_mono)
  with False show ?thesis by (auto simp: max_def)
qed

lemma long_edge_target:
  fixes a L tw th :: real
  assumes "0 < a" "0 < L"
    and "tw = (if 1 \<le> a then L else L * a)" "th = (if 1 \<le> a then L / a else L)"
  shows "tw / th = a" and "max tw th = L" and "max (round tw) (round th) = round L"
proof -
  show "tw / th = a" using assms by simp
  show m: "max tw th = L"
    using short_edge_le[OF assms(1,2)] assms(3,4) by (cases "1 \<le> a") (simp_all add: max_def)
  then show "max (round tw) (round th) = round L" by (simp add: round_max)
qed

text \<open>
  C5. For a source of positive width and height and the preset \<^verbatim>\<open>hd\<close> (long edge
  \<open>L = 1920\<close>) or \<^verbatim>\<open>4k\<close> (\<open>L = 3840\<close>), in both handlers: if the source aspect ratio
  \<open>a\<close> is at least 1 the target is \<open>L\<close> wide and \<open>L / a\<close> high, otherwise it is \<open>L\<close> high
  and \<open>L * a\<close> wide; no cropping is required; the target has the aspect ratio of the
  source (exactly, hence within \<open>10\<^sup>-\<^sup>6\<close>); and the larger of the two target dimensions is
  the long edge, before and after rounding.
\<close>

theorem hd_4k_keep_aspect_ratio:
  assumes "0 < W" "0 < H"
    and "preset r = HD \<and> L = 1920 \<or> preset r = UHD_4K \<and> L = 3840"
  shows "let a = real W / real H; t = resolve_final tol r W H; (tw, th) = resolve_download r W H in
           (a \<ge> 1 \<longrightarrow> targetWidth t = L \<and> targetHeight t = L / a \<and> tw = L \<and> th = L / a) \<and>
           (a < 1 \<longrightarrow> targetHeight t = L \<and> targetWidth t = L * a \<and> th = L \<and> tw = L * a) \<and>
           \<not> requiresCropping t \<and>
           targetWidth t / targetHeight t = a \<and> tw / th = a \<and>
           \<bar>targetWidth t / targetHeight t - a\<bar> \<le> 1 / 10 ^ 6 \<and> \<bar>tw / th - a\<bar> \<le> 1 / 10 ^ 6 \<and>
           max (targetWidth t) (targetHeight t) = L \<and> max tw th = L \<and>
           max (round (targetWidth t)) (round (targetHeight t)) = round L \<and>
           max (round tw) (round th) = round L"
proof -
  let ?a = "real W / real H"
  let ?t = "resolve_final tol r W H"
  obtain tw th where d: "resolve_download r W H = (tw, th)" by (cases "resolve_download r W H")
  from assms(1,2) have a: "0 < ?a" by simp
  from assms(3) have L: "0 < L" by auto
  from assms(3) have fw: "targetWidth ?t = (if 1 \<le> ?a then L else L * ?a)"
    and fh: "targetHeight ?t = (if 1 \<le> ?a then L / ?a else L)"
    and fc: "\<not> requiresCropping ?t"
    by (auto simp: resolve_final_def Let_def)
  from assms(3) d have dw: "tw = (if 1 \<le> ?a then L else L * ?a)"
    and dh: "th = (if 1 \<le> ?a then L / ?a else L)"
    by (auto simp: resolve_download_def Let_def)
  note f = long_edge_target[OF a L fw fh]
  note g = long_edge_target[OF a L dw dh]
  show ?thesis
    unfolding Let_def d prod.case
    using fw fh fc dw dh f g by simp
qed

theorem hd_4k_keep_aspect_ratio_witness:
  "(0::nat) < 1000 \<and> (0::nat) < 2000 \<and>
   preset \<lparr>preset = HD, width = None, height = None, aspectRatioLocked = True\<rparr> = HD \<and>
   resolve_final exact_over_tolerance
     \<lparr>preset = HD, width = None, height = None, aspectRatioLocked = True\<rparr> 1000 2000 =
     \<lparr>targetWidth = 960, targetHeight = 1920, requiresCropping = False\<rparr> \<and>
   resolve_download \<lparr>preset = HD, width = None, height = None, aspectRatioLocked = True\<rparr>
     1000 2000 = (960, 1920) \<and>
   (0::nat) < 4000 \<and> (0::nat) < 3000 \<and>
   preset \<lparr>preset = UHD_4K, width = None, height = None, aspectRatioLocked = True\<rparr> = UHD_4K \<and>
   resolve_final exact_over_tolerance
     \<lparr>preset = UHD_4K, width = None, height = None, aspectRatioLocked = True\<rparr> 4000 3000 =
     \<lparr>targetWidth = 3840, targetHeight = 2880, requiresCropping = False\<rparr> \<and>
   resolve_download \<lparr>preset = UHD_4K, width = None, height = None, aspectRatioLocked = True\<rparr>
     4000 3000 = (3840, 2880)"
  using hd_4k_keep_aspect_ratio
      [of 1000 2000 "\<lparr>preset = HD, width = None, height = None, aspectRatioLocked = True\<rparr>" 1920
        exact_over_tolerance]
    hd_4k_keep_aspect_ratio
      [of 4000 3000 "\<lparr>preset = UHD_4K, width = None, height = None, aspectRatioLocked = True\<rparr>"
        3840 exact_over_tolerance]
  by (cases "resolve_download \<lparr>preset = HD, width = None, height = None,
               aspectRatioLocked = True\<rparr> 1000 2000",
      cases "resolve_download \<lparr>preset = UHD_4K, width = None, height = None,
               aspectRatioLocked = True\<rparr> 4000 3000",
      cases "resolve_final exact_over_tolerance \<lparr>preset = HD, width = None, height = None,
               aspectRatioLocked = True\<rparr> 1000 2000",
      cases "resolve_final exact_over_tolerance \<lparr>preset = UHD_4K, width = None, height = None,
               aspectRatioLocked = True\<rparr> 4000 3000")
     (simp add: Let_def)

subsection \<open>The centre crop\<close>

lemma narrow_width:
  fixes w h b :: real
  assumes "0 < h" "b < w / h"
  shows "h * b < w"
  using assms by (simp add: pos_less_divide_eq mult.commute)

lemma narrow_height:
  fixes w h b :: real
  assumes "0 < h" "0 < b" "w / h < b"
  shows "w / b < h"
proof -
  from assms(1,3) have "w < b * h" by (simp add: pos_divide_less_eq)
  with assms(2) show ?thesis by (simp add: pos_divide_less_eq mult.commute)
qed

lemma centred_margin:
  fixes w s :: real
  assumes "0 < s" "s < w"
  shows "0 \<le> (w - s) / 2" and "(w - s) / 2 + s \<le> w"
  using assms by (simp_all add: field_simps)

lemma side_crop_within:
  fixes w h s :: real
  assumes "0 < s" "s < w" "0 < h"
  shows "0 \<le> (w - s) / 2 \<and> 0 \<le> (0::real) \<and> (w - s) / 2 + s \<le> w \<and> 0 + h \<le> h \<and> 0 < s \<and> 0 < h"
  using assms centred_margin[OF assms(1,2)] by (intro conjI) simp_all

lemma top_crop_within:
  fixes w h s :: real
  assumes "0 < s" "s < h" "0 < w"
  shows "0 \<le> (0::real) \<and> 0 \<le> (h - s) / 2 \<and> 0 + w \<le> w \<and> (h - s) / 2 + s \<le> h \<and> 0 < w \<and> 0 < s"
  using assms centred_margin[OF assms(1,2)] by (intro conjI) simp_all

lemma crop_source_within:
  assumes "0 < W" "0 < H" "0 < cw" "0 < ch"
  shows "0 \<le> sx (crop_source W H cw ch) \<and> 0 \<le> sy (crop_source W H cw ch) \<and>
         sx (crop_source W H cw ch) + sWidth (crop_source W H cw ch) \<le> real W \<and>
         sy (crop_source W H cw ch) + sHeight (crop_source W H cw ch) \<le> real H \<and>
         0 < sWidth (crop_source W H cw ch) \<and> 0 < sHeight (crop_source W H cw ch)"
proof -
  let ?a = "real W / real H"
  let ?b = "real_of_int cw / real_of_int ch"
  let ?c = "crop_source W H cw ch"
  from assms(1) have W: "0 < real W" by simp
  from assms(2) have H: "0 < real H" by simp
  from assms(3,4) have b: "0 < ?b" by simp
  consider (wider) "?a > ?b" | (taller) "\<not> ?a > ?b" "?a < ?b" | (same) "\<not> ?a > ?b" "\<not> ?a < ?b"
    by blast
  then show ?thesis
  proof cases
    case wider
    from H wider have lt: "real H * ?b < real W" by (rule narrow_width)
    have pos: "0 < real H * ?b" using H b by (rule mult_pos_pos)
    from wider have v: "sx ?c = (real W - real H * ?b) / 2" "sy ?c = 0"
      "sWidth ?c = real H * ?b" "sHeight ?c = real H"
      by (simp_all add: crop_source_def Let_def)
    show ?thesis unfolding v by (rule side_crop_within[OF pos lt H])
  next
    case taller
    from H b taller(2) have lt: "real W / ?b < real H" by (rule narrow_height)
    have pos: "0 < real W / ?b" using W b by (rule divide_pos_pos)
    from taller have v: "sx ?c = 0" "sy ?c = (real H - real W / ?b) / 2"
      "sWidth ?c = real W" "sHeight ?c = real W / ?b"
      by (simp_all add: crop_source_def Let_def)
    show ?thesis unfolding v by (rule top_crop_within[OF pos lt W])
  next
    case same
    then have v: "?c = \<lparr>sx = 0, sy = 0, sWidth = real W, sHeight = real H\<rparr>"
      by (simp add: crop_source_def Let_def)
    from W H show ?thesis unfolding v by simp
  qed
qed

text \<open>
  C6. For positive source and canvas dimensions: a source relatively wider than the
  canvas keeps its full height (\<open>sHeight = sourceHeight\<close>,
  \<open>sWidth = sourceHeight * targetAR\<close>, \<open>sy = 0\<close>); a relatively taller one keeps its
  full width (\<open>sWidth = sourceWidth\<close>, \<open>sHeight = sourceWidth / targetAR\<close>, \<open>sx = 0\<close>);
  with equal ratios the whole source is used; and the rectangle is always centred:
  \<open>sx = (sourceWidth - sWidth) / 2\<close> and \<open>sy = (sourceHeight - sHeight) / 2\<close>.
\<close>

theorem center_crop_rectangle:
  assumes "0 < W" "0 < H" "0 < cw" "0 < ch"
  shows "let c = crop_source W H cw ch; sourceAR = real W / real H;
             targetAR = real_of_int cw / real_of_int ch in
           (sourceAR > targetAR \<longrightarrow>
              sHeight c = real H \<and> sWidth c = real H * targetAR \<and> sy c = 0) \<and>
           (sourceAR < targetAR \<longrightarrow>
              sWidth c = real W \<and> sHeight c = real W / targetAR \<and> sx c = 0) \<and>
           (sourceAR = targetAR \<longrightarrow>
              c = \<lparr>sx = 0, sy = 0, sWidth = real W, sHeight = real H\<rparr>) \<and>
           sx c = (real W - sWidth c) / 2 \<and> sy c = (real H - sHeight c) / 2"
  by (simp add: crop_source_def Let_def)

theorem center_crop_rectangle_witness:
  "(0::nat) < 4000 \<and> (0::nat) < 3000 \<and> (0::int) < 1080 \<and>
   real 4000 / real 3000 > real_of_int 1080 / real_of_int 1080 \<and>
   crop_source 4000 3000 1080 1080 = \<lparr>sx = 500, sy = 0, sWidth = 3000, sHeight = 3000\<rparr> \<and>
   real 1000 / real 2000 < real_of_int 1080 / real_of_int 1080 \<and>
   crop_source 1000 2000 1080 1080 = \<lparr>sx = 0, sy = 500, sWidth = 1000, sHeight = 1000\<rparr>"
  using center_crop_rectangle [of 4000 3000 1080 1080]
    center_crop_rectangle [of 1000 2000 1080 1080]
  by (cases "crop_source 4000 3000 1080 1080", cases "crop_source 1000 2000 1080 1080")
     (simp add: Let_def)

text \<open>
  C10. For a source of positive width and height: whenever \<^verbatim>\<open>handleFinalDownload\<close>
  draws with a source rectangle and the canvas has positive width and height, the
  rectangle lies inside the source: \<open>0 \<le> sx\<close>, \<open>0 \<le> sy\<close>, \<open>sx + sWidth \<le> sourceWidth\<close>,
  \<open>sy + sHeight \<le> sourceHeight\<close>, \<open>sWidth > 0\<close> and \<open>sHeight > 0\<close>; it is stretched over
  the whole canvas.
\<close>

theorem crop_stays_inside_source:
  assumes "0 < W" "0 < H"
    and "handleFinalDownload tol num s (Some (Loads W H)) True = Inr d"
    and "drawn d = DrawCropped c dw dh"
    and "0 < canvas_width d" "0 < canvas_height d"
  shows "0 \<le> sx c \<and> 0 \<le> sy c \<and> sx c + sWidth c \<le> real W \<and> sy c + sHeight c \<le> real H \<and>
         0 < sWidth c \<and> 0 < sHeight c \<and> dw = canvas_width d \<and> dh = canvas_height d"
proof -
  from assms(3,4) have c: "c = crop_source W H (canvas_width d) (canvas_height d)"
    and "dw = canvas_width d" and "dh = canvas_height d"
    by (auto simp: handleFinalDownload_def Let_def split: if_splits)
  with crop_source_within[OF assms(1,2,5,6)] show ?thesis by simp
qed

theorem crop_stays_inside_source_witness:
  "(0::nat) < 4000 \<and> (0::nat) < 3000 \<and>
   handleFinalDownload exact_over_tolerance (\<lambda>x. if x = 0 then ''0'' else ''100'')
     (initialExportSettings\<lparr>resolution := \<lparr>preset = Square, width = None, height = None,
        aspectRatioLocked = True\<rparr>\<rparr>) (Some (Loads 4000 3000)) True =
     Inr \<lparr>canvas_width = 1080, canvas_height = 1080,
          canvas_filter = ''saturate(100%) contrast(100%) brightness(100%) sepia(0%)'',
          drawn = DrawCropped \<lparr>sx = 500, sy = 0, sWidth = 3000, sHeight = 3000\<rparr> 1080 1080,
          mime_type = ''image/jpeg'', encoder_quality = Some (95 / 100),
          filename = ''ai-fashion-photoshoot-enhanced.jpeg''\<rparr> \<and>
   (0::real) \<le> 500 \<and> (500::real) + 3000 \<le> real 4000 \<and> (0::real) + 3000 \<le> real 3000"
proof -
  let ?d = "\<lparr>canvas_width = 1080, canvas_height = 1080,
          canvas_filter = ''saturate(100%) contrast(100%) brightness(100%) sepia(0%)'',
          drawn = DrawCropped \<lparr>sx = 500, sy = 0, sWidth = 3000, sHeight = 3000\<rparr> 1080 1080,
          mime_type = ''image/jpeg'', encoder_quality = Some (95 / 100),
          filename = ''ai-fashion-photoshoot-enhanced.jpeg''\<rparr>"
  have run: "handleFinalDownload exact_over_tolerance (\<lambda>x. if x = 0 then ''0'' else ''100'')
     (initialExportSettings\<lparr>resolution := \<lparr>preset = Square, width = None, height = None,
        aspectRatioLocked = True\<rparr>\<rparr>) (Some (Loads 4000 3000)) True = Inr ?d"
    by (simp add: handleFinalDownload_def initialExportSettings_def resolve_final_def
        crop_source_def getCanvasFilter_eq download_filter_def Let_def)
  have "(0::nat) < 4000" and "(0::nat) < 3000" by simp_all
  from crop_stays_inside_source[OF this run, of "\<lparr>sx = 500, sy = 0, sWidth = 3000, sHeight = 3000\<rparr>" 1080 1080]
  show ?thesis using run by simp
qed

subsection \<open>Encoding and file name\<close>

lemma handleFinalDownload_Inr:
  assumes "handleFinalDownload tol num s img ctx = Inr d"
  obtains W H where "img = Some (Loads W H)" and "ctx"
  using assms
  by (auto simp: handleFinalDownload_def split: option.splits image_load.splits if_splits)

lemma handleDownload_Inr:
  assumes "handleDownload num s img ctx = Inr d"
  obtains W H where "img = Some (Loads W H)" and "ctx"
  using assms
  by (auto simp: handleDownload_def split: option.splits image_load.splits if_splits)

text \<open>
  C9. Every export of a decoded image with a 2D context produces a download, in both
  handlers (and no other invocation produces one), and: with format \<^verbatim>\<open>jpeg\<close> the encoder is called with quality
  \<open>quality / 100\<close> and the file name ends in \<^verbatim>\<open>.jpeg\<close>; with format \<^verbatim>\<open>png\<close> no
  quality reaches the encoder, changing the quality setting changes nothing, and the
  file name ends in \<^verbatim>\<open>.png\<close>. A quality in \<open>[10, 100]\<close> maps to a codec quality in
  \<open>[0.10, 1.00]\<close>.
\<close>

theorem encoding_follows_format:
  "(\<exists>d. handleFinalDownload tol num s (Some (Loads W H)) True = Inr d \<and>
      (format s = JPEG \<longrightarrow>
         encoder_quality d = Some (quality s / 100) \<and> mime_type d = ''image/jpeg'' \<and>
         suffix ''.jpeg'' (filename d)) \<and>
      (format s = PNG \<longrightarrow>
         encoder_quality d = None \<and> mime_type d = ''image/png'' \<and>
         suffix ''.png'' (filename d) \<and>
         handleFinalDownload tol num (s\<lparr>quality := q\<rparr>) (Some (Loads W H)) True = Inr d)) \<and>
   (\<exists>d. handleDownload num s (Some (Loads W H)) True = Inr d \<and>
      (format s = JPEG \<longrightarrow>
         encoder_quality d = Some (quality s / 100) \<and> mime_type d = ''image/jpeg'' \<and>
         suffix ''.jpeg'' (filename d)) \<and>
      (format s = PNG \<longrightarrow>
         encoder_quality d = None \<and> mime_type d = ''image/png'' \<and>
         suffix ''.png'' (filename d) \<and>
         handleDownload num (s\<lparr>quality := q\<rparr>) (Some (Loads W H)) True = Inr d)) \<and>
   (\<forall>img ctx d. handleFinalDownload tol num s img ctx = Inr d \<or>
        handleDownload num s img ctx = Inr d \<longrightarrow> (\<exists>W H. img = Some (Loads W H)) \<and> ctx) \<and>
   (10 \<le> quality s \<and> quality s \<le> 100 \<longrightarrow> 1 / 10 \<le> quality s / 100 \<and> quality s / 100 \<le> 1)"
proof (intro conjI)
  show "\<exists>d. handleFinalDownload tol num s (Some (Loads W H)) True = Inr d \<and>
      (format s = JPEG \<longrightarrow>
         encoder_quality d = Some (quality s / 100) \<and> mime_type d = ''image/jpeg'' \<and>
         suffix ''.jpeg'' (filename d)) \<and>
      (format s = PNG \<longrightarrow>
         encoder_quality d = None \<and> mime_type d = ''image/png'' \<and>
         suffix ''.png'' (filename d) \<and>
         handleFinalDownload tol num (s\<lparr>quality := q\<rparr>) (Some (Loads W H)) True = Inr d)"
    by (cases "format s") (simp_all add: handleFinalDownload_def Let_def suffix_def)
  show "\<exists>d. handleDownload num s (Some (Loads W H)) True = Inr d \<and>
      (format s = JPEG \<longrightarrow>
         encoder_quality d = Some (quality s / 100) \<and> mime_type d = ''image/jpeg'' \<and>
         suffix ''.jpeg'' (filename d)) \<and>
      (format s = PNG \<longrightarrow>
         encoder_quality d = None \<and> mime_type d = ''image/png'' \<and>
         suffix ''.png'' (filename d) \<and>
         handleDownload num (s\<lparr>quality := q\<rparr>) (Some (Loads W H)) True = Inr d)"
    by (cases "format s")
       (simp_all add: handleDownload_def Let_def suffix_def format_name_def split: prod.splits)
  show "\<forall>img ctx d. handleFinalDownload tol num s img ctx = Inr d \<or>
        handleDownload num s img ctx = Inr d \<longrightarrow> (\<exists>W H. img = Some (Loads W H)) \<and> ctx"
    by (blast elim: handleFinalDownload_Inr handleDownload_Inr)
  show "10 \<le> quality s \<and> quality s \<le> 100 \<longrightarrow> 1 / 10 \<le> quality s / 100 \<and> quality s / 100 \<le> 1"
    by simp
qed

theorem encoding_follows_format_witness:
  "handleFinalDownload exact_over_tolerance (\<lambda>x. if x = 0 then ''0'' else ''100'')
     initialExportSettings (Some (Loads 4000 3000)) True =
     Inr \<lparr>canvas_width = 4000, canvas_height = 3000,
          canvas_filter = ''saturate(100%) contrast(100%) brightness(100%) sepia(0%)'',
          drawn = DrawScaled 4000 3000,
          mime_type = ''image/jpeg'', encoder_quality = Some (95 / 100),
          filename = ''ai-fashion-photoshoot-enhanced.jpeg''\<rparr> \<and>
   handleDownload (\<lambda>x. if x = 0 then ''0'' else ''100'')
     initialExportSettings (Some (Loads 4000 3000)) True =
     Inr \<lparr>canvas_width = 4000, canvas_height = 3000,
          canvas_filter = ''saturate(100%) contrast(100%) brightness(100%) sepia(0%)'',
          drawn = DrawScaled 4000 3000,
          mime_type = ''image/jpeg'', encoder_quality = Some (95 / 100),
          filename = ''ai-fashion-studio.jpeg''\<rparr> \<and>
   format initialExportSettings = JPEG \<and>
   suffix ''.jpeg'' ''ai-fashion-photoshoot-enhanced.jpeg'' \<and>
   suffix ''.jpeg'' ''ai-fashion-studio.jpeg'' \<and>
   handleFinalDownload exact_over_tolerance (\<lambda>x. if x = 0 then ''0'' else ''100'')
     (initialExportSettings\<lparr>format := PNG\<rparr>) (Some (Loads 4000 3000)) True =
     Inr \<lparr>canvas_width = 4000, canvas_height = 3000,
          canvas_filter = ''saturate(100%) contrast(100%) brightness(100%) sepia(0%)'',
          drawn = DrawScaled 4000 3000,
          mime_type = ''image/png'', encoder_quality = None,
          filename = ''ai-fashion-photoshoot-enhanced.png''\<rparr> \<and>
   handleDownload (\<lambda>x. if x = 0 then ''0'' else ''100'') (initialExportSettings\<lparr>format := PNG\<rparr>)
     (Some (Loads 4000 3000)) True =
     Inr \<lparr>canvas_width = 4000, canvas_height = 3000,
          canvas_filter = ''saturate(100%) contrast(100%) brightness(100%) sepia(0%)'',
          drawn = DrawScaled 4000 3000,
          mime_type = ''image/png'', encoder_quality = None,
          filename = ''ai-fashion-studio.png''\<rparr> \<and>
   format (initialExportSettings\<lparr>format := PNG\<rparr>) = PNG \<and>
   suffix ''.png'' ''ai-fashion-photoshoot-enhanced.png'' \<and>
   suffix ''.png'' ''ai-fashion-studio.png'' \<and>
   10 \<le> quality initialExportSettings \<and> quality initialExportSettings \<le> 100 \<and>
   (1::real) / 10 \<le> 95 / 100 \<and> (95::real) / 100 \<le> 1"
proof -
  let ?num = "\<lambda>x::real. if x = 0 then ''0'' else ''100''"
  let ?img = "Some (Loads 4000 3000)"
  have fj: "handleFinalDownload exact_over_tolerance ?num initialExportSettings ?img True =
     Inr \<lparr>canvas_width = 4000, canvas_height = 3000,
          canvas_filter = ''saturate(100%) contrast(100%) brightness(100%) sepia(0%)'',
          drawn = DrawScaled 4000 3000,
          mime_type = ''image/jpeg'', encoder_quality = Some (95 / 100),
          filename = ''ai-fashion-photoshoot-enhanced.jpeg''\<rparr>"
    and fp: "handleFinalDownload exact_over_tolerance ?num (initialExportSettings\<lparr>format := PNG\<rparr>)
       ?img True =
     Inr \<lparr>canvas_width = 4000, canvas_height = 3000,
          canvas_filter = ''saturate(100%) contrast(100%) brightness(100%) sepia(0%)'',
          drawn = DrawScaled 4000 3000,
          mime_type = ''image/png'', encoder_quality = None,
          filename = ''ai-fashion-photoshoot-enhanced.png''\<rparr>"
    by (simp_all add: handleFinalDownload_def initialExportSettings_def resolve_final_def
        getCanvasFilter_eq download_filter_def Let_def)
  have dj: "handleDownload ?num initialExportSettings ?img True =
     Inr \<lparr>canvas_width = 4000, canvas_height = 3000,
          canvas_filter = ''saturate(100%) contrast(100%) brightness(100%) sepia(0%)'',
          drawn = DrawScaled 4000 3000,
          mime_type = ''image/jpeg'', encoder_quality = Some (95 / 100),
          filename = ''ai-fashion-studio.jpeg''\<rparr>"
    and dp: "handleDownload ?num (initialExportSettings\<lparr>format := PNG\<rparr>) ?img True =
     Inr \<lparr>canvas_width = 4000, canvas_height = 3000,
          canvas_filter = ''saturate(100%) contrast(100%) brightness(100%) sepia(0%)'',
          drawn = DrawScaled 4000 3000,
          mime_type = ''image/png'', encoder_quality = None,
          filename = ''ai-fashion-studio.png''\<rparr>"
    by (simp_all add: handleDownload_def initialExportSettings_def resolve_download_def
        download_filter_def format_name_def Let_def)
  have f: "format initialExportSettings = JPEG" "format (initialExportSettings\<lparr>format := PNG\<rparr>) = PNG"
    and q: "quality initialExportSettings = 95"
    by (simp_all add: initialExportSettings_def)
  from encoding_follows_format[where tol = exact_over_tolerance and num = ?num
      and s = initialExportSettings and W = 4000 and H = 3000 and q = 10]
    encoding_follows_format[where tol = exact_over_tolerance and num = ?num
      and s = "initialExportSettings\<lparr>format := PNG\<rparr>" and W = 4000 and H = 3000 and q = 10]
  show ?thesis unfolding fj fp dj dp using f q by simp
qed

subsection \<open>Loading the persisted settings\<close>

lemma basic_validation_defaults: "basic_validation defaultSettings"
  by (simp add: basic_validation_def defaultSettings_def)

lemma loadInitialSettings_cases:
  "loadInitialSettings JSON_parse got = defaultSettings \<or>
   (\<exists>s parsed m. got = GetItem (Some s) \<and> s \<noteq> [] \<and> JSON_parse s = Some parsed \<and>
      mergedSettings parsed = Some m \<and> basic_validation m \<and>
      loadInitialSettings JSON_parse got = m)"
  by (auto simp: loadInitialSettings_def split: storage_read.splits option.splits)

lemma loaded_valid: "basic_validation (loadInitialSettings JSON_parse got)"
  using loadInitialSettings_cases[of JSON_parse got] basic_validation_defaults by auto

lemma merged_format: "mergedSettings parsed = Some m \<Longrightarrow>
    raw_format m = spread_over parsed ''format'' (JStr ''jpeg'') \<and>
    raw_quality m = spread_over parsed ''quality'' (JNum 92)"
  by (cases parsed) (auto simp: mergedSettings_def Let_def defaultSettings_def)

text \<open>
  C8. Whatever is persisted, \<^verbatim>\<open>loadInitialSettings\<close> returns the hardcoded defaults
  when the record is missing (the read throws, returns \<^verbatim>\<open>null\<close> or the empty string),
  when it does not parse, and when its \<^verbatim>\<open>format\<close> is neither \<^verbatim>\<open>png\<close> nor
  \<^verbatim>\<open>jpeg\<close> or its \<^verbatim>\<open>quality\<close> is not a number in \<open>[10, 100]\<close>. The defaults are
  format \<^verbatim>\<open>jpeg\<close>, a quality in \<open>[92, 95]\<close>, the identity colour grading, the
  resolution preset \<^verbatim>\<open>original\<close> and a locked aspect ratio. So the loaded settings
  always have a format among \<^verbatim>\<open>png\<close>, \<^verbatim>\<open>jpeg\<close> and a quality between 10 and 100.
\<close>

theorem load_falls_back_to_defaults:
  "(got = GetItemThrows \<or> got = GetItem None \<or> got = GetItem (Some []) \<longrightarrow>
      loadInitialSettings JSON_parse got = defaultSettings) \<and>
   (\<forall>s. got = GetItem (Some s) \<and> JSON_parse s = None \<longrightarrow>
      loadInitialSettings JSON_parse got = defaultSettings) \<and>
   (\<forall>s parsed. got = GetItem (Some s) \<and> JSON_parse s = Some parsed \<and>
      ((\<exists>f. own_field parsed ''format'' = Some f \<and> f \<noteq> JStr ''png'' \<and> f \<noteq> JStr ''jpeg'') \<or>
       (\<exists>v. own_field parsed ''quality'' = Some v \<and> (\<forall>x. v = JNum x \<longrightarrow> x < 10 \<or> 100 < x))) \<longrightarrow>
      loadInitialSettings JSON_parse got = defaultSettings) \<and>
   raw_format defaultSettings = JStr ''jpeg'' \<and>
   (\<exists>x. raw_quality defaultSettings = JNum x \<and> 92 \<le> x \<and> x \<le> 95) \<and>
   raw_colorGrading defaultSettings =
     \<lparr>raw_grading_preset = JStr ''none'', raw_saturation = JNum 100, raw_contrast = JNum 100,
      raw_brightness = JNum 100, raw_warmth = JNum 0\<rparr> \<and>
   raw_preset (raw_resolution defaultSettings) = JStr ''original'' \<and>
   raw_aspectRatioLocked (raw_resolution defaultSettings) = JBool True \<and>
   (raw_format (loadInitialSettings JSON_parse got) = JStr ''png'' \<or>
    raw_format (loadInitialSettings JSON_parse got) = JStr ''jpeg'') \<and>
   (\<exists>x. raw_quality (loadInitialSettings JSON_parse got) = JNum x \<and> 10 \<le> x \<and> x \<le> 100)"
proof (intro conjI allI impI)
  assume "got = GetItemThrows \<or> got = GetItem None \<or> got = GetItem (Some [])"
  then show "loadInitialSettings JSON_parse got = defaultSettings"
    by (auto simp: loadInitialSettings_def)
next
  fix s assume "got = GetItem (Some s) \<and> JSON_parse s = None"
  then show "loadInitialSettings JSON_parse got = defaultSettings"
    by (simp add: loadInitialSettings_def)
next
  fix s parsed
  assume a: "got = GetItem (Some s) \<and> JSON_parse s = Some parsed \<and>
      ((\<exists>f. own_field parsed ''format'' = Some f \<and> f \<noteq> JStr ''png'' \<and> f \<noteq> JStr ''jpeg'') \<or>
       (\<exists>v. own_field parsed ''quality'' = Some v \<and> (\<forall>x. v = JNum x \<longrightarrow> x < 10 \<or> 100 < x)))"
  show "loadInitialSettings JSON_parse got = defaultSettings"
  proof (cases "mergedSettings parsed")
    case None
    with a show ?thesis by (simp add: loadInitialSettings_def)
  next
    case (Some m)
    from merged_format[OF Some] a have "\<not> basic_validation m"
      by (auto simp: basic_validation_def spread_over_def split: json.splits)
    with a Some show ?thesis by (simp add: loadInitialSettings_def)
  qed
next
  from loaded_valid[of JSON_parse got]
  show "raw_format (loadInitialSettings JSON_parse got) = JStr ''png'' \<or>
    raw_format (loadInitialSettings JSON_parse got) = JStr ''jpeg''"
    by (simp add: basic_validation_def)
  from loaded_valid[of JSON_parse got]
  show "\<exists>x. raw_quality (loadInitialSettings JSON_parse got) = JNum x \<and> 10 \<le> x \<and> x \<le> 100"
    by (auto simp: basic_validation_def split: json.splits)
qed (simp_all add: defaultSettings_def)


theorem load_falls_back_to_defaults_witness:
  \<open>loadInitialSettings Map.empty (GetItem None) = defaultSettings \<and>
   loadInitialSettings Map.empty (GetItem (Some ''{"format":'')) = defaultSettings \<and>
   own_field (JObj [(''format'', JStr ''bmp'')]) ''format'' = Some (JStr ''bmp'') \<and>
   loadInitialSettings [''{"format":"bmp"}'' \<mapsto> JObj [(''format'', JStr ''bmp'')]]
     (GetItem (Some ''{"format":"bmp"}'')) = defaultSettings \<and>
   own_field (JObj [(''quality'', JNum 5)]) ''quality'' = Some (JNum 5) \<and>
   loadInitialSettings [''{"quality":5}'' \<mapsto> JObj [(''quality'', JNum 5)]]
     (GetItem (Some ''{"quality":5}'')) = defaultSettings \<and>
   raw_format (loadInitialSettings
     [''{"format":"png","quality":50}'' \<mapsto> JObj [(''format'', JStr ''png''), (''quality'', JNum 50)]]
     (GetItem (Some ''{"format":"png","quality":50}''))) = JStr ''png'' \<and>
   raw_quality (loadInitialSettings
     [''{"format":"png","quality":50}'' \<mapsto> JObj [(''format'', JStr ''png''), (''quality'', JNum 50)]]
     (GetItem (Some ''{"format":"png","quality":50}''))) = JNum 50\<close>
proof -
  have png: \<open>loadInitialSettings
     [''{"format":"png","quality":50}'' \<mapsto> JObj [(''format'', JStr ''png''), (''quality'', JNum 50)]]
     (GetItem (Some ''{"format":"png","quality":50}'')) =
     defaultSettings\<lparr>raw_format := JStr ''png'', raw_quality := JNum 50\<rparr>\<close>
    by (simp add: loadInitialSettings_def mergedSettings_def basic_validation_def
        spread_over_def nested_or_empty_def defaultSettings_def)
  from load_falls_back_to_defaults[of "GetItem None" Map.empty]
    load_falls_back_to_defaults[of \<open>GetItem (Some ''{"format":'')\<close> Map.empty]
    load_falls_back_to_defaults[of \<open>GetItem (Some ''{"format":"bmp"}'')\<close>
      \<open>[''{"format":"bmp"}'' \<mapsto> JObj [(''format'', JStr ''bmp'')]]\<close>]
    load_falls_back_to_defaults[of \<open>GetItem (Some ''{"quality":5}'')\<close>
      \<open>[''{"quality":5}'' \<mapsto> JObj [(''quality'', JNum 5)]]\<close>]
    load_falls_back_to_defaults[of \<open>GetItem (Some ''{"format":"png","quality":50}'')\<close>
      \<open>[''{"format":"png","quality":50}'' \<mapsto> JObj [(''format'', JStr ''png''), (''quality'', JNum 50)]]\<close>]
  show ?thesis unfolding png by simp
qed





subsection \<open>The custom preset\<close>






subsection \<open>No check of the rounded target\<close>

text \<open>
  C2, as stated, fails: an 8000 x 2 source with the preset \<^verbatim>\<open>hd\<close> resolves to a
  height of 0.48, which rounds to 0, and \<^verbatim>\<open>handleFinalDownload\<close> still sizes the
  canvas, draws and produces the download.
\<close>

theorem zero_height_canvas_is_exported:
  "handleFinalDownload exact_over_tolerance (\<lambda>x. if x = 0 then ''0'' else ''100'')
     (initialExportSettings\<lparr>resolution :=
        \<lparr>preset = HD, width = None, height = None, aspectRatioLocked = True\<rparr>\<rparr>)
     (Some (Loads 8000 2)) True =
   Inr \<lparr>canvas_width = 1920, canvas_height = 0,
        canvas_filter = ''saturate(100%) contrast(100%) brightness(100%) sepia(0%)'',
        drawn = DrawScaled 1920 0,
        mime_type = ''image/jpeg'', encoder_quality = Some (95 / 100),
        filename = ''ai-fashion-photoshoot-enhanced.jpeg''\<rparr>"
  by (simp add: handleFinalDownload_def initialExportSettings_def resolve_final_def
      getCanvasFilter_eq download_filter_def Let_def round_def)

text \<open>
  C2, amended. Neither handler checks the rounded target: for every decoded source
  (of positive width and height) and all settings, once a 2D context is available the
  export sizes the canvas with the rounded target and returns a download, also when a
  rounded dimension is 0. An export stops only without an enhanced image, on a failed
  load, or without a context.
\<close>

theorem export_without_dimension_check:
  assumes "0 < W" "0 < H"
  shows "(\<exists>d. handleFinalDownload tol num s (Some (Loads W H)) True = Inr d \<and>
            canvas_width d = round (targetWidth (resolve_final tol (resolution s) W H)) \<and>
            canvas_height d = round (targetHeight (resolve_final tol (resolution s) W H))) \<and>
         (\<exists>d. handleDownload num s (Some (Loads W H)) True = Inr d \<and>
            canvas_width d = round (fst (resolve_download (resolution s) W H)) \<and>
            canvas_height d = round (snd (resolve_download (resolution s) W H))) \<and>
         (\<forall>img ctx e.
            handleFinalDownload tol num s img ctx = Inl e \<or> handleDownload num s img ctx = Inl e \<longrightarrow>
            img = None \<and> e = NoEnhancedImage \<or> img = Some LoadFails \<and> e = ImageLoadFailed \<or>
            \<not> ctx \<and> e = NoContext)"
proof (intro conjI allI impI)
  show "\<exists>d. handleFinalDownload tol num s (Some (Loads W H)) True = Inr d \<and>
            canvas_width d = round (targetWidth (resolve_final tol (resolution s) W H)) \<and>
            canvas_height d = round (targetHeight (resolve_final tol (resolution s) W H))"
    by (simp add: handleFinalDownload_def Let_def)
  show "\<exists>d. handleDownload num s (Some (Loads W H)) True = Inr d \<and>
            canvas_width d = round (fst (resolve_download (resolution s) W H)) \<and>
            canvas_height d = round (snd (resolve_download (resolution s) W H))"
    by (simp add: handleDownload_def Let_def split: prod.splits)
next
  fix img ctx e
  assume "handleFinalDownload tol num s img ctx = Inl e \<or> handleDownload num s img ctx = Inl e"
  then show "img = None \<and> e = NoEnhancedImage \<or> img = Some LoadFails \<and> e = ImageLoadFailed \<or>
            \<not> ctx \<and> e = NoContext"
    by (auto simp: handleFinalDownload_def handleDownload_def Let_def
        split: option.splits image_load.splits if_splits prod.splits)
qed

theorem export_without_dimension_check_witness:
  "(0::nat) < 8000 \<and> (0::nat) < 2 \<and>
   round (targetHeight (resolve_final exact_over_tolerance \<lparr>preset = HD, width = None, height = None,
       aspectRatioLocked = True\<rparr> 8000 2)) = 0 \<and>
   (\<exists>d. handleFinalDownload exact_over_tolerance (\<lambda>x. if x = 0 then ''0'' else ''100'')
          (initialExportSettings\<lparr>resolution :=
             \<lparr>preset = HD, width = None, height = None, aspectRatioLocked = True\<rparr>\<rparr>)
          (Some (Loads 8000 2)) True = Inr d \<and> canvas_height d = 0) \<and>
   (\<exists>d. handleDownload (\<lambda>x. if x = 0 then ''0'' else ''100'')
          (initialExportSettings\<lparr>resolution :=
             \<lparr>preset = HD, width = None, height = None, aspectRatioLocked = True\<rparr>\<rparr>)
          (Some (Loads 8000 2)) True = Inr d \<and> canvas_height d = 0)"
proof -
  have z: "round (targetHeight (resolve_final exact_over_tolerance \<lparr>preset = HD, width = None, height = None,
       aspectRatioLocked = True\<rparr> 8000 2)) = 0"
    "round (snd (resolve_download \<lparr>preset = HD, width = None, height = None,
       aspectRatioLocked = True\<rparr> 8000 2)) = 0"
    by (simp_all add: resolve_final_def resolve_download_def Let_def round_def)
  from export_without_dimension_check [where W = 8000 and H = 2 and tol = exact_over_tolerance
      and num = "\<lambda>x. if x = 0 then ''0'' else ''100''"
      and s = "initialExportSettings\<lparr>resolution :=
         \<lparr>preset = HD, width = None, height = None, aspectRatioLocked = True\<rparr>\<rparr>"]
  show ?thesis using z by auto
qed

subsection \<open>The presets \<^verbatim>\<open>square\<close>, \<^verbatim>\<open>portrait\<close> and \<^verbatim>\<open>landscape\<close>\<close>

text \<open>
  C4, as stated, fails in \<^verbatim>\<open>handleDownload\<close>, which has no branch for these
  presets: a 4000 x 3000 source with the preset \<^verbatim>\<open>square\<close> keeps its own size.
\<close>

theorem fixed_presets_missing_in_handleDownload:
  "resolve_download \<lparr>preset = Square, width = None, height = None,
     aspectRatioLocked = True\<rparr> 4000 3000 = (4000, 3000)"
  by (simp add: resolve_download_def Let_def)

text \<open>
  C4, amended. In \<^verbatim>\<open>handleFinalDownload\<close>, for every source of positive width and
  height, the presets \<^verbatim>\<open>square\<close>, \<^verbatim>\<open>portrait\<close> and \<^verbatim>\<open>landscape\<close> always require
  cropping (also when the source already has the target's aspect ratio), and the
  target and the canvas are exactly 1080 x 1080, 1080 x 1920 and 1920 x 1080.
\<close>

theorem fixed_presets_in_final_download:
  assumes "0 < W" "0 < H"
    and "preset (resolution s) = Square \<and> w = 1080 \<and> h = 1080 \<or>
         preset (resolution s) = Portrait \<and> w = 1080 \<and> h = 1920 \<or>
         preset (resolution s) = Landscape \<and> w = 1920 \<and> h = 1080"
  shows "resolve_final tol (resolution s) W H =
           \<lparr>targetWidth = real_of_int w, targetHeight = real_of_int h, requiresCropping = True\<rparr> \<and>
         (\<forall>d. handleFinalDownload tol num s (Some (Loads W H)) True = Inr d \<longrightarrow>
            canvas_width d = w \<and> canvas_height d = h \<and>
            drawn d = DrawCropped (crop_source W H w h) w h)"
proof -
  from assms(3) have f: "resolve_final tol (resolution s) W H =
      \<lparr>targetWidth = real_of_int w, targetHeight = real_of_int h, requiresCropping = True\<rparr>"
    by (auto simp: resolve_final_def Let_def)
  have "canvas_width d = w \<and> canvas_height d = h \<and>
        drawn d = DrawCropped (crop_source W H w h) w h"
    if "handleFinalDownload tol num s (Some (Loads W H)) True = Inr d" for d
    using that by (auto simp: handleFinalDownload_def f Let_def split: if_splits)
  with f show ?thesis by blast
qed

theorem fixed_presets_in_final_download_witness:
  "(0::nat) < 1080 \<and>
   preset (resolution (initialExportSettings\<lparr>resolution :=
     \<lparr>preset = Square, width = None, height = None, aspectRatioLocked = True\<rparr>\<rparr>)) = Square \<and>
   resolve_final exact_over_tolerance \<lparr>preset = Square, width = None, height = None,
     aspectRatioLocked = True\<rparr> 1080 1080 =
     \<lparr>targetWidth = 1080, targetHeight = 1080, requiresCropping = True\<rparr> \<and>
   (0::nat) < 4000 \<and> (0::nat) < 3000 \<and>
   preset (resolution (initialExportSettings\<lparr>resolution :=
     \<lparr>preset = Landscape, width = None, height = None, aspectRatioLocked = True\<rparr>\<rparr>)) = Landscape \<and>
   resolve_final exact_over_tolerance \<lparr>preset = Landscape, width = None, height = None,
     aspectRatioLocked = True\<rparr> 4000 3000 =
     \<lparr>targetWidth = 1920, targetHeight = 1080, requiresCropping = True\<rparr>"
  using fixed_presets_in_final_download [where W = 1080 and H = 1080 and w = 1080 and h = 1080
      and tol = exact_over_tolerance and s = "initialExportSettings\<lparr>resolution :=
        \<lparr>preset = Square, width = None, height = None, aspectRatioLocked = True\<rparr>\<rparr>"]
    fixed_presets_in_final_download [where W = 4000 and H = 3000 and w = 1920 and h = 1080
      and tol = exact_over_tolerance and s = "initialExportSettings\<lparr>resolution :=
        \<lparr>preset = Landscape, width = None, height = None, aspectRatioLocked = True\<rparr>\<rparr>"]
  by simp

end
